theory Spec2Isabelle
  imports Main "HOL-Library.Word"
begin

section \<open>The syntax tree of document-converter.ts\<close>

text \<open>
  The converter works on ESTree nodes: JavaScript objects with a \<open>type\<close> tag, an optional
  source location \<open>loc\<close> and the fields of their kind. One datatype \<open>node\<close> stands for the
  TypeScript union \<open>Node\<close>: a constructor for every kind the converter inspects or builds
  by name, and \<open>OtherNode\<close> (type tag and child nodes) for every other kind, which the
  converter only ever traverses. A node built by a jscodeshift builder has \<open>loc = null\<close>,
  here \<open>None\<close>; a parsed node has a location.
\<close>

record position =
  line :: nat
  column :: nat

record sourceLocation =
  loc_start :: position
  loc_end :: position

type_synonym loc = "sourceLocation option"

text \<open>
  The text of a template literal is a JavaScript string, a sequence of UTF-16 code units.
  Identifier names, URLs and string literals of the script are kept as \<open>string\<close>.
\<close>

type_synonym jsstring = "16 word list"

datatype literalValue =
    StringValue string
  | NumberValue int
  | BooleanValue bool
  | NullValue
  | RegExpValue string

text \<open>
  Fields, after the location: \<open>Program body\<close>; \<open>ExpressionStatement expression\<close>;
  \<open>VariableDeclaration kind declarations\<close>; \<open>VariableDeclarator id init\<close>;
  \<open>FunctionDeclaration id params body generator\<close>; \<open>ClassDeclaration id superClass body\<close>;
  \<open>BlockStatement body\<close>; \<open>ReturnStatement argument\<close>;
  \<open>ImportDeclaration specifiers source\<close>; \<open>ImportSpecifier imported local\<close>;
  \<open>ImportNamespaceSpecifier local\<close>; \<open>ExportNamedDeclaration declaration specifiers\<close>;
  \<open>ExportSpecifier local exported\<close>; \<open>ExportDefaultDeclaration declaration\<close>;
  \<open>ExportDeclaration default declaration\<close> (the node \<open>jsc.exportDeclaration\<close> builds);
  \<open>Identifier name\<close>; \<open>Literal value\<close>; \<open>MemberExpression object property computed\<close>;
  \<open>CallExpression callee arguments\<close>; \<open>FunctionExpression id params body generator\<close>;
  \<open>ArrowFunctionExpression params body\<close>; \<open>ObjectExpression properties\<close>;
  \<open>Property key value\<close>; \<open>ArrayExpression elements\<close>;
  \<open>AssignmentExpression operator left right\<close>; \<open>BinaryExpression operator left right\<close>;
  \<open>LogicalExpression operator left right\<close>; \<open>TemplateLiteral quasis expressions\<close>;
  \<open>TemplateElement cooked raw tail\<close>; \<open>OtherNode type children\<close>.
\<close>

datatype node =
    Program loc "node list"
  | ExpressionStatement loc node
  | VariableDeclaration loc string "node list"
  | VariableDeclarator loc node "node option"
  | FunctionDeclaration loc "node option" "node list" node bool
  | ClassDeclaration loc "node option" "node option" node
  | BlockStatement loc "node list"
  | ReturnStatement loc "node option"
  | ImportDeclaration loc "node list" node
  | ImportSpecifier loc node node
  | ImportNamespaceSpecifier loc node
  | ExportNamedDeclaration loc "node option" "node list"
  | ExportSpecifier loc node node
  | ExportDefaultDeclaration loc node
  | ExportDeclaration loc bool node
  | Identifier loc string
  | Literal loc literalValue
  | ThisExpression loc
  | MemberExpression loc node node bool
  | CallExpression loc node "node list"
  | FunctionExpression loc "node option" "node list" node bool
  | ArrowFunctionExpression loc "node list" node
  | ObjectExpression loc "node list"
  | Property loc node node
  | ArrayExpression loc "node list"
  | AssignmentExpression loc string node node
  | BinaryExpression loc string node node
  | LogicalExpression loc string node node
  | TemplateLiteral loc "node list" "node list"
  | TemplateElement loc jsstring jsstring bool
  | OtherNode loc string "node list"

section \<open>Member paths and export-shaped assignments\<close>

text \<open>
  \<open>getMemberPath\<close>: the array of identifiers of a chain of property accesses, or
  \<open>undefined\<close> (\<open>None\<close>). The \<open>computed\<close> flag of a member expression is not looked at.
\<close>

fun getMemberPath :: "node \<Rightarrow> string list option" where
  "getMemberPath (MemberExpression l obj prop c) =
     (case prop of
        Identifier pl property \<Rightarrow>
          (case obj of
             ThisExpression ol \<Rightarrow> Some [''this'', property]
           | Identifier ol name \<Rightarrow>
               if name = ''window'' then Some [property] else Some [name, property]
           | MemberExpression ol oo op oc \<Rightarrow>
               (case getMemberPath obj of
                  Some prefixPath \<Rightarrow> Some (prefixPath @ [property])
                | None \<Rightarrow> None)
           | _ \<Rightarrow> None)
      | _ \<Rightarrow> None)"
| "getMemberPath _ = None"

text \<open>
  \<open>getExport\<close>: a statement is export-shaped when it is an expression statement holding an
  assignment (of any operator) whose left side is a member expression with a member path
  whose first segment is in \<open>namespaces\<close>; the result is the path and the right side.
\<close>

fun getExport :: "node \<Rightarrow> string set \<Rightarrow> (string list \<times> node) option" where
  "getExport (ExpressionStatement l (AssignmentExpression al operator left right)) namespaces =
     (case left of
        MemberExpression ml obj prop c \<Rightarrow>
          (case getMemberPath left of
             Some namespace \<Rightarrow>
               (case namespace of
                  [] \<Rightarrow> None
                | root # rest \<Rightarrow> if root \<in> namespaces then Some (namespace, right) else None)
           | None \<Rightarrow> None)
      | _ \<Rightarrow> None)"
| "getExport _ namespaces = None"

section \<open>Errors\<close>

text \<open>
  A JavaScript exception is a value: \<open>TypeError\<close> for a property read on \<open>undefined\<close> or
  \<open>null\<close>, \<open>Error\<close> for the converter's own \<open>throw new Error(...)\<close>. A method that can
  throw returns \<open>error + 'a\<close>, paired with the state it leaves behind where that matters.
\<close>

datatype error = TypeError string | Error string

section \<open>Generic traversal\<close>

text \<open>
  \<open>astTypes.visit\<close> walks a tree in pre-order; at a node with no visitor method, and where a
  visitor calls \<open>this.traverse(path)\<close>, it goes on into the child nodes. \<open>children\<close> lists
  the child nodes of a node in field order, \<open>mapChildren f\<close> rebuilds a node from the
  results of \<open>f\<close> on its children.
\<close>

fun optionNode :: "node option \<Rightarrow> node list" where
  "optionNode None = []"
| "optionNode (Some n) = [n]"

fun children :: "node \<Rightarrow> node list" where
  "children (Program l body) = body"
| "children (ExpressionStatement l expression) = [expression]"
| "children (VariableDeclaration l kind declarations) = declarations"
| "children (VariableDeclarator l ident init) = ident # optionNode init"
| "children (FunctionDeclaration l ident params body generator) = optionNode ident @ params @ [body]"
| "children (ClassDeclaration l ident superClass body) = optionNode ident @ optionNode superClass @ [body]"
| "children (BlockStatement l body) = body"
| "children (ReturnStatement l argument) = optionNode argument"
| "children (ImportDeclaration l specifiers src) = specifiers @ [src]"
| "children (ImportSpecifier l imported local) = [imported, local]"
| "children (ImportNamespaceSpecifier l local) = [local]"
| "children (ExportNamedDeclaration l declaration specifiers) = optionNode declaration @ specifiers"
| "children (ExportSpecifier l local exported) = [local, exported]"
| "children (ExportDefaultDeclaration l declaration) = [declaration]"
| "children (ExportDeclaration l dflt declaration) = [declaration]"
| "children (Identifier l name) = []"
| "children (Literal l v) = []"
| "children (ThisExpression l) = []"
| "children (MemberExpression l obj property computed) = [obj, property]"
| "children (CallExpression l callee arguments) = callee # arguments"
| "children (FunctionExpression l ident params body generator) = optionNode ident @ params @ [body]"
| "children (ArrowFunctionExpression l params body) = params @ [body]"
| "children (ObjectExpression l properties) = properties"
| "children (Property l key v) = [key, v]"
| "children (ArrayExpression l elements) = elements"
| "children (AssignmentExpression l operator left right) = [left, right]"
| "children (BinaryExpression l operator left right) = [left, right]"
| "children (LogicalExpression l operator left right) = [left, right]"
| "children (TemplateLiteral l quasis expressions) = quasis @ expressions"
| "children (TemplateElement l cooked raw tail) = []"
| "children (OtherNode l kind nodes) = nodes"

fun mapChildren :: "(node \<Rightarrow> node) \<Rightarrow> node \<Rightarrow> node" where
  "mapChildren f (Program l body) = Program l (map f body)"
| "mapChildren f (ExpressionStatement l expression) = ExpressionStatement l (f expression)"
| "mapChildren f (VariableDeclaration l kind declarations) =
     VariableDeclaration l kind (map f declarations)"
| "mapChildren f (VariableDeclarator l ident init) = VariableDeclarator l (f ident) (map_option f init)"
| "mapChildren f (FunctionDeclaration l ident params body generator) =
     FunctionDeclaration l (map_option f ident) (map f params) (f body) generator"
| "mapChildren f (ClassDeclaration l ident superClass body) =
     ClassDeclaration l (map_option f ident) (map_option f superClass) (f body)"
| "mapChildren f (BlockStatement l body) = BlockStatement l (map f body)"
| "mapChildren f (ReturnStatement l argument) = ReturnStatement l (map_option f argument)"
| "mapChildren f (ImportDeclaration l specifiers src) = ImportDeclaration l (map f specifiers) (f src)"
| "mapChildren f (ImportSpecifier l imported local) = ImportSpecifier l (f imported) (f local)"
| "mapChildren f (ImportNamespaceSpecifier l local) = ImportNamespaceSpecifier l (f local)"
| "mapChildren f (ExportNamedDeclaration l declaration specifiers) =
     ExportNamedDeclaration l (map_option f declaration) (map f specifiers)"
| "mapChildren f (ExportSpecifier l local exported) = ExportSpecifier l (f local) (f exported)"
| "mapChildren f (ExportDefaultDeclaration l declaration) = ExportDefaultDeclaration l (f declaration)"
| "mapChildren f (ExportDeclaration l dflt declaration) = ExportDeclaration l dflt (f declaration)"
| "mapChildren f (Identifier l name) = Identifier l name"
| "mapChildren f (Literal l v) = Literal l v"
| "mapChildren f (ThisExpression l) = ThisExpression l"
| "mapChildren f (MemberExpression l obj property computed) =
     MemberExpression l (f obj) (f property) computed"
| "mapChildren f (CallExpression l callee arguments) = CallExpression l (f callee) (map f arguments)"
| "mapChildren f (FunctionExpression l ident params body generator) =
     FunctionExpression l (map_option f ident) (map f params) (f body) generator"
| "mapChildren f (ArrowFunctionExpression l params body) =
     ArrowFunctionExpression l (map f params) (f body)"
| "mapChildren f (ObjectExpression l properties) = ObjectExpression l (map f properties)"
| "mapChildren f (Property l key v) = Property l (f key) (f v)"
| "mapChildren f (ArrayExpression l elements) = ArrayExpression l (map f elements)"
| "mapChildren f (AssignmentExpression l operator left right) =
     AssignmentExpression l operator (f left) (f right)"
| "mapChildren f (BinaryExpression l operator left right) =
     BinaryExpression l operator (f left) (f right)"
| "mapChildren f (LogicalExpression l operator left right) =
     LogicalExpression l operator (f left) (f right)"
| "mapChildren f (TemplateLiteral l quasis expressions) =
     TemplateLiteral l (map f quasis) (map f expressions)"
| "mapChildren f (TemplateElement l cooked raw tail) = TemplateElement l cooked raw tail"
| "mapChildren f (OtherNode l kind nodes) = OtherNode l kind (map f nodes)"

lemma size_list_member: "x \<in> set xs \<Longrightarrow> size x < Suc (size_list size xs)"
  by (induction xs) auto

lemma size_optionNode: "x \<in> set (optionNode y) \<Longrightarrow> size x < Suc (size_option size y)"
  by (cases y) auto

lemma children_size: "c \<in> set (children n) \<Longrightarrow> size c < size n"
  by (cases n) (auto dest!: size_list_member size_optionNode)

lemma mapChildren_cong [fundef_cong]:
  "n = m \<Longrightarrow> (\<And>c. c \<in> set (children m) \<Longrightarrow> f c = g c) \<Longrightarrow> mapChildren f n = mapChildren g m"
  by (cases m) (auto intro: option.map_cong)



section \<open>Import declarations\<close>

text \<open>
  \<open>getImportAlias\<close> and \<open>getModuleId\<close>: the local names under which an imported member
  and an imported module are bound. \<open>basename\<close> is Node's \<open>path.basename\<close> on POSIX paths:
  trailing slashes are dropped, then everything up to the last slash.
  \<open>dashToCamelCase\<close> is \<open>s.replace(/-[a-z]/g, (m) => m[1].toUpperCase())\<close>.
\<close>

definition getImportAlias :: "string \<Rightarrow> string" where
  "getImportAlias importId = ''$'' @ importId"

definition basename :: "string \<Rightarrow> string" where
  "basename p =
     (let trimmed = rev (dropWhile (\<lambda>c. c = CHR ''/'') (rev p))
      in rev (takeWhile (\<lambda>c. c \<noteq> CHR ''/'') (rev trimmed)))"

definition isLowerAZ :: "char \<Rightarrow> bool" where
  "isLowerAZ c = (97 \<le> (of_char c :: nat) \<and> (of_char c :: nat) \<le> 122)"

definition toUpperCase :: "char \<Rightarrow> char" where
  "toUpperCase c = (if isLowerAZ c then char_of ((of_char c :: nat) - 32) else c)"

fun dashToCamelCase :: "string \<Rightarrow> string" where
  "dashToCamelCase (c # d # rest) =
     (if c = CHR ''-'' \<and> isLowerAZ d then toUpperCase d # dashToCamelCase rest
      else c # dashToCamelCase (d # rest))"
| "dashToCamelCase s = s"

text \<open>
  \<open>baseName.substring(0, baseName.lastIndexOf('.'))\<close>: the text before the last dot, and
  the empty string when there is no dot (\<open>substring(0, -1)\<close>).
\<close>

definition getModuleId :: "string \<Rightarrow> string" where
  "getModuleId url =
     (let baseName = basename url;
          mainName = (if CHR ''.'' \<in> set baseName
                      then rev (tl (dropWhile (\<lambda>c. c \<noteq> CHR ''.'') (rev baseName)))
                      else [])
      in ''$$'' @ dashToCamelCase mainName)"

text \<open>
  \<open>getImportDeclarations\<close>. The optional \<open>Set<string>\<close> of referenced names is the list of
  its elements in insertion order (\<open>Array.from\<close>), \<open>None\<close> when no set was recorded.
\<close>

definition getImportDeclarations :: "string \<Rightarrow> string list option \<Rightarrow> node list" where
  "getImportDeclarations specifierUrl namedExports =
     (let namedExportsArray = (case namedExports of Some names \<Rightarrow> names | None \<Rightarrow> []);
          hasNamespaceReference = list_ex (\<lambda>s. s = ''*'') namedExportsArray;
          namedSpecifiers =
            map (\<lambda>s. ImportSpecifier None (Identifier None s) (Identifier None (getImportAlias s)))
              (filter (\<lambda>s. s \<noteq> ''*'') namedExportsArray)
      in (if hasNamespaceReference
          then [ImportDeclaration None
                  [ImportNamespaceSpecifier None (Identifier None (getModuleId specifierUrl))]
                  (Literal None (StringValue specifierUrl))]
          else []) @
         (if namedSpecifiers \<noteq> [] \<or> \<not> hasNamespaceReference
          then [ImportDeclaration None namedSpecifiers (Literal None (StringValue specifierUrl))]
          else []))"

section \<open>Template literals from serialized markup\<close>









section \<open>Unwrapping the module body\<close>

fun isUseStrict :: "node \<Rightarrow> bool" where
  "isUseStrict (ExpressionStatement l expression) =
     (case expression of Literal ll v \<Rightarrow> v = StringValue ''use strict'' | _ \<Rightarrow> False)"
| "isUseStrict _ = False"

text \<open>
  \<open>unwrapModuleBody\<close> on the statements of the program: the new statements. The body of a
  parsed function expression is a block statement; on any other node \<open>callee.body.body\<close>
  is \<open>undefined\<close> and reading its length throws.
\<close>

definition unwrapModuleBody :: "node list \<Rightarrow> error + node list" where
  "unwrapModuleBody programBody =
     (case programBody of
        [statement] \<Rightarrow>
          (case statement of
             ExpressionStatement l expression \<Rightarrow>
               (case expression of
                  CallExpression cl callee arguments \<Rightarrow>
                    (case callee of
                       FunctionExpression fl fid params fbody generator \<Rightarrow>
                         (case fbody of
                            BlockStatement bl body \<Rightarrow>
                              Inr (if length body > 1 \<and> isUseStrict (hd body)
                                   then tl body else body)
                          | _ \<Rightarrow> Inl (TypeError ''callee.body.body is undefined''))
                     | _ \<Rightarrow> Inr programBody)
                | _ \<Rightarrow> Inr programBody)
           | _ \<Rightarrow> Inr programBody)
      | _ \<Rightarrow> Inr programBody)"

section \<open>Lowering a namespace object to exports\<close>

text \<open>
  The value of \<open>this._mutableExports[name]\<close>. The configuration is a plain object (a copy
  made with \<open>Object.assign({}, ...)\<close>), so a name that is not a key of the configuration
  but a property of \<open>Object.prototype\<close> is found there: the value is then a function or
  an object, which is truthy and has no method \<open>includes\<close>. Every other name that is not
  a key gives \<open>undefined\<close>.
\<close>

datatype nameList = Undefined | Names "string list" | Inherited



text \<open>
  \<open>getNamespaceExports\<close>: the loop over the properties of the object literal, one export
  (name and node) per supported member, in order. \<open>namespaceMember\<close> is the loop body: the
  exports it pushes for one property. A property with a key that is not an identifier and
  a value of an unsupported kind are skipped (the source warns on the console, which is
  left out here). An element without \<open>key\<close> and \<open>value\<close> fields makes \<open>key.type\<close> throw; a
  \<open>namespace\<close> argument that has no \<open>properties\<close> makes the iteration throw.
  \<open>bindingExport\<close> is the branch of object, array and literal values, where \<open>isMutable\<close> is
  \<open>!!(mutableExports && mutableExports.includes(name))\<close>.
\<close>

definition exportBinding :: "string \<Rightarrow> node \<Rightarrow> node \<Rightarrow> node" where
  "exportBinding kind key v =
     ExportNamedDeclaration None
       (Some (VariableDeclaration None kind [VariableDeclarator None key (Some v)])) []"

definition bindingExport :: "nameList \<Rightarrow> string \<Rightarrow> node \<Rightarrow> node \<Rightarrow> error + (string \<times> node) list" where
  "bindingExport mutableExports name key v =
     (case mutableExports of
        Undefined \<Rightarrow> Inr [(name, exportBinding ''const'' key v)]
      | Names names \<Rightarrow>
          Inr [(name, exportBinding (if name \<in> set names then ''let'' else ''const'') key v)]
      | Inherited \<Rightarrow> Inl (TypeError ''mutableExports.includes is not a function''))"

fun namespaceMember :: "nameList \<Rightarrow> node \<Rightarrow> error + (string \<times> node) list" where
  "namespaceMember mutableExports (Property pl key v) =
     (case key of
        Identifier kl name \<Rightarrow>
          (case v of
             ObjectExpression vl properties \<Rightarrow> bindingExport mutableExports name key v
           | ArrayExpression vl elements \<Rightarrow> bindingExport mutableExports name key v
           | Literal vl lv \<Rightarrow> bindingExport mutableExports name key v
           | FunctionExpression vl fid params body generator \<Rightarrow>
               Inr [(name, ExportNamedDeclaration None
                  (Some (FunctionDeclaration None (Some key) params body generator)) [])]
           | ArrowFunctionExpression vl params body \<Rightarrow>
               Inr [(name, exportBinding ''const'' key v)]
           | Identifier vl vname \<Rightarrow>
               Inr [(name, ExportNamedDeclaration None None
                  [ExportSpecifier None (Identifier None name) (Identifier None name)])]
           | _ \<Rightarrow> Inr [])
      | _ \<Rightarrow> Inr [])"
| "namespaceMember mutableExports _ = Inl (TypeError ''key is undefined'')"



section \<open>Rewriting this inside exported functions\<close>

text \<open>
  \<open>rewriteSingleScopeThisReferences\<close>: a visit of the block with three visitor methods.
  A function expression and a function declaration are left as they are (the visitor
  returns \<open>false\<close>), a \<open>this\<close> expression is replaced by \<open>jsc.identifier(namespaceReference)\<close>,
  and every other node, an arrow function among them, is traversed.
\<close>

function rewriteSingleScopeThisReferences :: "string \<Rightarrow> node \<Rightarrow> node" where
  "rewriteSingleScopeThisReferences namespaceReference n =
     (case n of
        FunctionExpression l ident params body generator \<Rightarrow> n
      | FunctionDeclaration l ident params body generator \<Rightarrow> n
      | ThisExpression l \<Rightarrow> Identifier None namespaceReference
      | _ \<Rightarrow> mapChildren (rewriteSingleScopeThisReferences namespaceReference) n)"
  by pat_completeness auto
termination
  by (relation "measure (\<lambda>(r, n). size n)") (auto dest: children_size simp del: children.simps)

text \<open>
  \<open>rewriteNamespaceThisReferences\<close>: a visit of the program. At an export named declaration
  and at an export default declaration whose declaration is a function declaration, the
  body of the function is rewritten; neither is traversed further. Nothing happens when
  the namespace name is \<open>undefined\<close>.
\<close>

function visitExportedFunctions :: "string \<Rightarrow> node \<Rightarrow> node" where
  "visitExportedFunctions namespaceName n =
     (case n of
        ExportNamedDeclaration l declaration specifiers \<Rightarrow>
          (case declaration of
             Some (FunctionDeclaration fl ident params body generator) \<Rightarrow>
               ExportNamedDeclaration l
                 (Some (FunctionDeclaration fl ident params
                    (rewriteSingleScopeThisReferences namespaceName body) generator)) specifiers
           | _ \<Rightarrow> n)
      | ExportDefaultDeclaration l declaration \<Rightarrow>
          (case declaration of
             FunctionDeclaration fl ident params body generator \<Rightarrow>
               ExportDefaultDeclaration l
                 (FunctionDeclaration fl ident params
                    (rewriteSingleScopeThisReferences namespaceName body) generator)
           | _ \<Rightarrow> n)
      | _ \<Rightarrow> mapChildren (visitExportedFunctions namespaceName) n)"
  by pat_completeness auto
termination
  by (relation "measure (\<lambda>(r, n). size n)") (auto dest: children_size simp del: children.simps)


section \<open>Documents, modules and the two converters\<close>

text \<open>
  What the Analyzer hands over, read-only. A feature has the set of its kinds, the set of
  identifiers it is known by, and its syntax-tree node. A script document is given by the
  program \<open>recast.parse\<close> returns for its contents (the location and the statements of
  the \<open>Program\<close> node) and by its features of kind \<open>namespace\<close>. A document has its URL, its
  features of kind \<open>js-document\<close>, its features of kind \<open>html-import\<close> (URL and target
  document of each) and the features \<open>getFeatures({id: ...})\<close> selects from.
\<close>

record feature =
  feature_kinds :: "string set"
  feature_identifiers :: "string set"
  feature_astNode :: node

record scriptDocument =
  script_program :: "loc \<times> node list"
  script_namespaces :: "feature list"

datatype document =
  Document (doc_url: string) (doc_scripts: "scriptDocument list")
    (doc_htmlImports: "(string \<times> document) list") (doc_features: "feature list")


text \<open>
  \<open>JsExport\<close> and \<open>JsModule\<close>. The imported references of a module, a
  \<open>Map<string, Set<string>>\<close>, are an association list in insertion order.
\<close>

record jsExport =
  export_url :: string
  export_name :: string

record jsModule =
  module_url :: string
  module_source :: string
  module_exports :: "string set"
  module_importedReferences :: "(string \<times> string list) list"

text \<open>
  The \<open>AnalysisConverter\<close>, as far as the document converter reads and writes it. Module
  records are objects: \<open>ac_heap\<close> maps an object reference to the record, \<open>ac_modules\<close> (the
  registry \<open>modules\<close>) maps a URL to a reference, and \<open>ac_allocated\<close> counts the records
  created so far, so that it is the reference of the next one. \<open>ac_console\<close> collects the
  lines written with \<open>console.log\<close>.
\<close>

record analysisConverter =
  ac_namespaces :: "string set"
  ac_excludes :: "string set"
  ac_referenceExcludes :: "string set"
  ac_mutableExports :: "string \<rightharpoonup> string list"
  ac_modules :: "string \<rightharpoonup> nat"
  ac_heap :: "nat \<rightharpoonup> jsModule"
  ac_allocated :: nat
  ac_namespacedExports :: "string \<rightharpoonup> jsExport"
  ac_console :: "string list"

text \<open>
  The fields of a \<open>DocumentConverter\<close>. \<open>dc_module\<close> is the reference of \<open>this.module\<close>;
  \<open>dc_program\<close> is \<open>None\<close> while \<open>this.program\<close> is \<open>undefined\<close>, and else the location and
  the statements of the \<open>Program\<close> node.
\<close>

record documentConverter =
  dc_jsUrl :: string
  dc_module :: nat
  dc_document :: document
  dc_scriptDocument :: "scriptDocument option"
  dc_program :: "(loc \<times> node list) option"
  dc_currentStatementIndex :: int
  dc_mutableExports :: "string \<rightharpoonup> string list"

type_synonym state = "documentConverter \<times> analysisConverter"

text \<open>
  \<open>htmlUrlToJs\<close> (url-converter.ts) is not among the sources: it is the parameter \<open>h\<close> of
  the functions that call it, applied to the URL and the optional base URL.
\<close>

type_synonym urlConverter = "string \<Rightarrow> string option \<Rightarrow> string"

subsection \<open>The constructor\<close>

definition newDocumentConverter :: "urlConverter \<Rightarrow> analysisConverter \<Rightarrow> document \<Rightarrow> state" where
  "newDocumentConverter h ac d =
     (let jsUrl = h (doc_url d) None;
          r = ac_allocated ac;
          m = \<lparr>module_url = jsUrl, module_source = [], module_exports = {},
               module_importedReferences = []\<rparr>;
          ac1 = ac\<lparr>ac_heap := (ac_heap ac)(r \<mapsto> m), ac_allocated := Suc r,
                   ac_modules := (ac_modules ac)(jsUrl \<mapsto> r)\<rparr>;
          dc0 = \<lparr>dc_jsUrl = jsUrl, dc_module = r, dc_document = d, dc_scriptDocument = None,
                 dc_program = None, dc_currentStatementIndex = 0,
                 dc_mutableExports = ac_mutableExports ac\<rparr>
      in case doc_scripts d of
           [] \<Rightarrow> (dc0\<lparr>dc_program := Some (None, [])\<rparr>, ac1)
         | [script] \<Rightarrow>
             (dc0\<lparr>dc_scriptDocument := Some script, dc_program := Some (script_program script)\<rparr>,
              ac1)
         | _ \<Rightarrow> (dc0, ac1\<lparr>ac_console := ac_console ac1 @ [''multiple scripts'']\<rparr>))"

subsection \<open>Exports and imports of the module\<close>

definition getHtmlImports :: "documentConverter \<Rightarrow> analysisConverter \<Rightarrow> (string \<times> document) list" where
  "getHtmlImports dc ac = filter (\<lambda>(u, d). u \<notin> ac_excludes ac) (doc_htmlImports (dc_document dc))"





subsection \<open>Converting the dependencies\<close>

text \<open>
  \<open>convertDependencies\<close> calls \<open>AnalysisConverter.convertDocument\<close>, which is not among
  the sources: it is the parameter \<open>convertDocument\<close>, a function from the document and
  the analysis converter to an outcome (what it throws or returns) and the analysis
  converter it leaves behind. The loop has no exception handler.
\<close>

type_synonym 'r documentFunction =
  "document \<Rightarrow> analysisConverter \<Rightarrow> (error + 'r) \<times> analysisConverter"

fun convertImports ::
  "urlConverter \<Rightarrow> 'r documentFunction \<Rightarrow> string \<Rightarrow> (string \<times> document) list \<Rightarrow>
   analysisConverter \<Rightarrow> (error + unit) \<times> analysisConverter" where
  "convertImports h convertDocument baseUrl [] ac = (Inr (), ac)"
| "convertImports h convertDocument baseUrl (htmlImport # rest) ac =
     (if h (fst htmlImport) (Some baseUrl) \<in> dom (ac_modules ac)
      then convertImports h convertDocument baseUrl rest ac
      else (case convertDocument (snd htmlImport) ac of
              (Inl e, ac') \<Rightarrow> (Inl e, ac')
            | (Inr r, ac') \<Rightarrow> convertImports h convertDocument baseUrl rest ac'))"

definition convertDependencies ::
  "urlConverter \<Rightarrow> 'r documentFunction \<Rightarrow> documentConverter \<Rightarrow> analysisConverter \<Rightarrow>
   (error + unit) \<times> analysisConverter" where
  "convertDependencies h convertDocument dc ac =
     convertImports h convertDocument (doc_url (dc_document dc)) (getHtmlImports dc ac) ac"

section \<open>Locating nodes by source location\<close>







section \<open>Rewriting namespace assignments to exports\<close>









text \<open>
  One iteration of the loop of \<open>rewriteNamespaceExports\<close>, with the local variables
  \<open>localNamespaceName\<close> and \<open>namespaceName\<close> before and after. It is entered with
  \<open>currentStatementIndex < body.length\<close>; a negative index reads \<open>undefined\<close>, whose
  \<open>type\<close> \<open>getExport\<close> cannot read.
\<close>

type_synonym names = "string option \<times> string option"






subsection \<open>The loop ends\<close>

























section \<open>The conversion of a document\<close>







text \<open>
  Modelled from the spec: \<open>AnalysisConverter.convertDocument\<close> (analysis-converter.ts is
  not among the sources). The spec gives the contract \<open>convert(document) -> ModuleRecord\<close>,
  that it is idempotent per URL (checked against the Reference Index before doing work) and
  that re-conversion is a no-op if a record already exists. \<open>convertNew\<close> stands for
  \<open>new DocumentConverter(this, document).convert()\<close>; the result is the record the
  registry holds for the URL of the document.
\<close>

definition convertDocument ::
  "urlConverter \<Rightarrow> unit documentFunction \<Rightarrow> (jsModule option) documentFunction" where
  "convertDocument h convertNew d ac =
     (case ac_modules ac (h (doc_url d) None) of
        Some r \<Rightarrow> (Inr (ac_heap ac r), ac)
      | None \<Rightarrow>
          (case convertNew d ac of
             (Inl e, ac') \<Rightarrow> (Inl e, ac')
           | (Inr u, ac') \<Rightarrow>
               (Inr (case ac_modules ac' (h (doc_url d) None) of
                       Some r \<Rightarrow> ac_heap ac' r | None \<Rightarrow> None), ac')))"

section \<open>Properties\<close>

subsection \<open>Member paths\<close>

text \<open>
  Two readings of a member-access chain, used to state what \<open>getMemberPath\<close> returns:
  the node at the root of the chain, and the names of the properties from the root
  outwards (\<open>None\<close> when a property is not an identifier).
\<close>

fun rootObject :: "node \<Rightarrow> node" where
  "rootObject (MemberExpression l obj prop c) = rootObject obj"
| "rootObject n = n"

fun propertyNames :: "node \<Rightarrow> string list option" where
  "propertyNames (MemberExpression l obj prop c) =
     (case prop of
        Identifier pl p \<Rightarrow>
          (case propertyNames obj of Some ps \<Rightarrow> Some (ps @ [p]) | None \<Rightarrow> None)
      | _ \<Rightarrow> None)"
| "propertyNames n = Some []"

lemma propertyNames_member_nonempty:
  "propertyNames (MemberExpression ml ob pr cm) = Some ps \<Longrightarrow> ps \<noteq> []"
  by (cases pr; auto split: option.splits)

lemma getMemberPath_chain:
  "rootObject e = Identifier rl r \<Longrightarrow> propertyNames e = Some ps \<Longrightarrow> ps \<noteq> [] \<Longrightarrow>
   getMemberPath e = Some (if r = ''window'' then ps else r # ps)"
proof (induction e arbitrary: ps rule: rootObject.induct)
  case (1 ml ob pr cm)
  from "1.prems"(2) obtain pl p qs where pr: "pr = Identifier pl p"
    and qs: "propertyNames ob = Some qs" and ps: "ps = qs @ [p]"
    by (cases pr; auto split: option.splits)
  show ?case
  proof (cases ob)
    case (Identifier ol name)
    with "1.prems" pr qs ps show ?thesis by simp
  next
    case (MemberExpression ol oo op oc)
    with qs have "qs \<noteq> []" using propertyNames_member_nonempty by blast
    with "1.IH" "1.prems"(1) qs
    have "getMemberPath ob = Some (if r = ''window'' then qs else r # qs)" by simp
    with MemberExpression pr ps show ?thesis by simp
  qed (use "1.prems"(1) in simp_all)
qed simp_all

text \<open>
  Claim C10. For a member-access chain \<open>w\<close> rooted at the identifier \<open>window\<close>, with
  property names \<open>ps\<close>, \<open>getMemberPath\<close> returns \<open>ps\<close>: the leading \<open>window\<close> is elided
  (\<open>window.Foo\<close> gives \<open>[Foo]\<close>). For a chain \<open>e\<close> rooted at any other identifier \<open>r\<close>, with
  property names \<open>qs\<close>, it returns \<open>r # qs\<close>. Hence an assignment to \<open>window.r.qs\<close> and an
  assignment to \<open>r.qs\<close> of the same value give the same result of \<open>getExport\<close>, under
  every namespace set: both are export-shaped exactly when \<open>r\<close> is a namespace.
\<close>

theorem getMemberPath_elides_window:
  "(rootObject w = Identifier wl ''window'' \<and> propertyNames w = Some ps \<and> ps \<noteq> [] \<longrightarrow>
      getMemberPath w = Some ps \<and>
      getExport (ExpressionStatement sl (AssignmentExpression al operator w v)) namespaces =
        (if hd ps \<in> namespaces then Some (ps, v) else None)) \<and>
   (rootObject e = Identifier el r \<and> r \<noteq> ''window'' \<and> propertyNames e = Some qs \<and> qs \<noteq> [] \<longrightarrow>
      getMemberPath e = Some (r # qs) \<and>
      getExport (ExpressionStatement sl' (AssignmentExpression al' operator' e v)) namespaces =
        (if r \<in> namespaces then Some (r # qs, v) else None)) \<and>
   (rootObject w = Identifier wl ''window'' \<and> propertyNames w = Some (r # qs) \<and>
    rootObject e = Identifier el r \<and> r \<noteq> ''window'' \<and> propertyNames e = Some qs \<and> qs \<noteq> [] \<longrightarrow>
      getExport (ExpressionStatement sl (AssignmentExpression al operator w v)) namespaces =
      getExport (ExpressionStatement sl' (AssignmentExpression al' operator' e v)) namespaces)"
proof -
  have member: "\<exists>ml ob pr cm. x = MemberExpression ml ob pr cm"
    if "propertyNames x = Some ys" "ys \<noteq> []" for x ys
    using that by (cases x) simp_all
  have A: "getMemberPath w = Some ps \<and>
      getExport (ExpressionStatement sl (AssignmentExpression al operator w v)) namespaces =
        (if hd ps \<in> namespaces then Some (ps, v) else None)"
    if "rootObject w = Identifier wl ''window''" "propertyNames w = Some ps" "ps \<noteq> []"
    for w wl ps sl al operator
  proof -
    from that have p: "getMemberPath w = Some ps" using getMemberPath_chain by fastforce
    from member that obtain ml ob pr cm where "w = MemberExpression ml ob pr cm" by blast
    with p that(3) show ?thesis by (cases ps) simp_all
  qed
  have B: "getMemberPath e = Some (r # qs) \<and>
      getExport (ExpressionStatement sl' (AssignmentExpression al' operator' e v)) namespaces =
        (if r \<in> namespaces then Some (r # qs, v) else None)"
    if "rootObject e = Identifier el r" "r \<noteq> ''window''" "propertyNames e = Some qs" "qs \<noteq> []"
  proof -
    from that have p: "getMemberPath e = Some (r # qs)" using getMemberPath_chain by fastforce
    from member that obtain ml ob pr cm where "e = MemberExpression ml ob pr cm" by blast
    with p show ?thesis by simp
  qed
  show ?thesis using A [of w wl ps sl al operator] A [of w wl "r # qs" sl al operator] B by auto
qed

theorem getMemberPath_elides_window_witness:
  "getMemberPath (MemberExpression None (MemberExpression None (Identifier None ''window'')
      (Identifier None ''Foo'') False) (Identifier None ''bar'') False) = Some [''Foo'', ''bar''] \<and>
   getMemberPath (MemberExpression None (Identifier None ''Foo'') (Identifier None ''bar'') False)
     = Some [''Foo'', ''bar''] \<and>
   getExport (ExpressionStatement None (AssignmentExpression None ''=''
      (MemberExpression None (MemberExpression None (Identifier None ''window'')
      (Identifier None ''Foo'') False) (Identifier None ''bar'') False) (Literal None (NumberValue 1))))
      {''Foo''} =
   getExport (ExpressionStatement None (AssignmentExpression None ''=''
      (MemberExpression None (Identifier None ''Foo'') (Identifier None ''bar'') False)
      (Literal None (NumberValue 1)))) {''Foo''}"
  using getMemberPath_elides_window [of
    "MemberExpression None (MemberExpression None (Identifier None ''window'')
      (Identifier None ''Foo'') False) (Identifier None ''bar'') False"
    None "[''Foo'', ''bar'']" None None "''=''" "Literal None (NumberValue 1)" "{''Foo''}"
    "MemberExpression None (Identifier None ''Foo'') (Identifier None ''bar'') False"
    None "''Foo''" "[''bar'']" None None "''=''"]
  by simp

subsection \<open>Synthesized imports\<close>

text \<open>
  The three shapes of import declaration the claim names: the namespace-style import of a
  module under its module identifier, the named import of a list of names under their
  aliases, and (the named import of no name) the bare import for side effect.
\<close>

definition namespaceImport :: "string \<Rightarrow> node" where
  "namespaceImport specifierUrl =
     ImportDeclaration None
       [ImportNamespaceSpecifier None (Identifier None (getModuleId specifierUrl))]
       (Literal None (StringValue specifierUrl))"

definition namedImport :: "string \<Rightarrow> string list \<Rightarrow> node" where
  "namedImport specifierUrl names =
     ImportDeclaration None
       (map (\<lambda>s. ImportSpecifier None (Identifier None s) (Identifier None (''$'' @ s))) names)
       (Literal None (StringValue specifierUrl))"

fun isNamespaceImport :: "node \<Rightarrow> bool" where
  "isNamespaceImport (ImportDeclaration l specifiers src) =
     list_ex (\<lambda>s. case s of ImportNamespaceSpecifier sl local \<Rightarrow> True | _ \<Rightarrow> False) specifiers"
| "isNamespaceImport _ = False"

lemma namedImport_not_namespace: "\<not> isNamespaceImport (namedImport u names)"
  by (induction names) (simp_all add: namedImport_def)

text \<open>
  Claim C6. For a dependency URL and the names recorded for it (none recorded: \<open>None\<close>),
  the declarations of \<open>getImportDeclarations\<close> hold the namespace-style import under the
  module identifier exactly when \<open>*\<close> is among the names, and hold no other namespace-style
  import; they hold the named import of all names other than \<open>*\<close>, each under its alias,
  when there is such a name; and they are the one bare import when no name is recorded.
  They hold nothing else.
\<close>

theorem getImportDeclarations_shape:
  "(let names = (case namedExports of Some ns \<Rightarrow> ns | None \<Rightarrow> []);
        named = filter (\<lambda>s. s \<noteq> ''*'') names;
        decls = getImportDeclarations specifierUrl namedExports
    in (namespaceImport specifierUrl \<in> set decls) = (''*'' \<in> set names) \<and>
       list_ex isNamespaceImport decls = (''*'' \<in> set names) \<and>
       (named \<noteq> [] \<longrightarrow> namedImport specifierUrl named \<in> set decls) \<and>
       (names = [] \<longrightarrow> decls = [namedImport specifierUrl []]) \<and>
       set decls \<subseteq> {namespaceImport specifierUrl, namedImport specifierUrl named})"
  using namedImport_not_namespace [of specifierUrl
      "filter (\<lambda>s. s \<noteq> ''*'') (case namedExports of Some ns \<Rightarrow> ns | None \<Rightarrow> [])"]
  by (auto simp: getImportDeclarations_def Let_def namespaceImport_def namedImport_def
      getImportAlias_def list_ex_iff)

lemma getModuleId_example: "getModuleId ''./dep/polymer-element.js'' = ''$$polymerElement''"
  by code_simp

theorem getImportDeclarations_shape_witness:
  "getImportDeclarations ''./dep/polymer-element.js'' (Some [''Element'', ''*'']) =
     [ImportDeclaration None
        [ImportNamespaceSpecifier None (Identifier None ''$$polymerElement'')]
        (Literal None (StringValue ''./dep/polymer-element.js'')),
      ImportDeclaration None
        [ImportSpecifier None (Identifier None ''Element'') (Identifier None ''$Element'')]
        (Literal None (StringValue ''./dep/polymer-element.js''))] \<and>
   namespaceImport ''./dep/polymer-element.js''
     \<in> set (getImportDeclarations ''./dep/polymer-element.js'' (Some [''Element'', ''*''])) \<and>
   namedImport ''./dep/polymer-element.js'' [''Element'']
     \<in> set (getImportDeclarations ''./dep/polymer-element.js'' (Some [''Element'', ''*''])) \<and>
   getImportDeclarations ''./dep/polymer-element.js'' None =
     [namedImport ''./dep/polymer-element.js'' []] \<and>
   \<not> list_ex isNamespaceImport (getImportDeclarations ''./dep/polymer-element.js'' None)"
proof -
  have ev: "getImportDeclarations ''./dep/polymer-element.js'' (Some [''Element'', ''*'']) =
     [ImportDeclaration None
        [ImportNamespaceSpecifier None (Identifier None ''$$polymerElement'')]
        (Literal None (StringValue ''./dep/polymer-element.js'')),
      ImportDeclaration None
        [ImportSpecifier None (Identifier None ''Element'') (Identifier None ''$Element'')]
        (Literal None (StringValue ''./dep/polymer-element.js''))]"
    by (simp add: getImportDeclarations_def getModuleId_example getImportAlias_def)
  show ?thesis
    using getImportDeclarations_shape [of "Some [''Element'', ''*'']" "''./dep/polymer-element.js''"]
      getImportDeclarations_shape [of None "''./dep/polymer-element.js''"] ev
    by (simp add: Let_def namedImport_not_namespace)
qed

subsection \<open>Markup literals\<close>























subsection \<open>The module body\<close>

text \<open>
  Claim C5, as amended. When the program body is one expression statement that calls a
  function expression, \<open>unwrapModuleBody\<close> replaces it by the statements of the function
  body, without the first of them when there is more than one and the first is the
  directive \<open>use strict\<close>; a function body that consists of the directive alone is kept
  whole. Every other program body is left as it is.
\<close>

theorem unwrapModuleBody_cases:
  "(programBody = [ExpressionStatement l (CallExpression cl
        (FunctionExpression fl fid params (BlockStatement bl body) generator) arguments)] \<longrightarrow>
      unwrapModuleBody programBody =
        Inr (if length body > 1 \<and> isUseStrict (hd body) then tl body else body)) \<and>
   ((\<forall>l cl fl fid params fbody generator arguments.
        programBody \<noteq> [ExpressionStatement l (CallExpression cl
          (FunctionExpression fl fid params fbody generator) arguments)]) \<longrightarrow>
      unwrapModuleBody programBody = Inr programBody)"
proof (intro conjI impI)
  assume "programBody = [ExpressionStatement l (CallExpression cl
        (FunctionExpression fl fid params (BlockStatement bl body) generator) arguments)]"
  then show "unwrapModuleBody programBody =
        Inr (if length body > 1 \<and> isUseStrict (hd body) then tl body else body)"
    by (simp add: unwrapModuleBody_def)
next
  assume a: "\<forall>l cl fl fid params fbody generator arguments.
        programBody \<noteq> [ExpressionStatement l (CallExpression cl
          (FunctionExpression fl fid params fbody generator) arguments)]"
  show "unwrapModuleBody programBody = Inr programBody"
  proof (cases programBody)
    case Nil
    then show ?thesis by (simp add: unwrapModuleBody_def)
  next
    case (Cons s rest)
    show ?thesis
    proof (cases rest)
      case (Cons s2 rest2)
      with \<open>programBody = s # rest\<close> show ?thesis by (simp add: unwrapModuleBody_def)
    next
      case Nil
      with \<open>programBody = s # rest\<close> have pb: "programBody = [s]" by simp
      show ?thesis
      proof (cases s)
        case (ExpressionStatement sl ex)
        show ?thesis
        proof (cases ex)
          case (CallExpression cl2 callee args)
          show ?thesis
          proof (cases callee)
            case (FunctionExpression fl2 fid2 ps fb g)
            with a pb ExpressionStatement CallExpression show ?thesis by blast
          qed (simp_all add: unwrapModuleBody_def pb ExpressionStatement CallExpression)
        qed (simp_all add: unwrapModuleBody_def pb ExpressionStatement)
      qed (simp_all add: unwrapModuleBody_def pb)
    qed
  qed
qed

text \<open>
  The wrapper \<open>(function() { 'use strict'; f(); })()\<close> is unwrapped to \<open>f();\<close>, and the
  program \<open>f();\<close> stays.
\<close>

theorem unwrapModuleBody_cases_witness:
  "unwrapModuleBody [ExpressionStatement None (CallExpression None
      (FunctionExpression None None []
         (BlockStatement None
            [ExpressionStatement None (Literal None (StringValue ''use strict'')),
             ExpressionStatement None (CallExpression None (Identifier None ''f'') [])]) False) [])]
     = Inr [ExpressionStatement None (CallExpression None (Identifier None ''f'') [])] \<and>
   unwrapModuleBody [ExpressionStatement None (CallExpression None (Identifier None ''f'') [])]
     = Inr [ExpressionStatement None (CallExpression None (Identifier None ''f'') [])]"
  using unwrapModuleBody_cases [of
      "[ExpressionStatement None (CallExpression None
      (FunctionExpression None None []
         (BlockStatement None
            [ExpressionStatement None (Literal None (StringValue ''use strict'')),
             ExpressionStatement None (CallExpression None (Identifier None ''f'') [])]) False) [])]"
      None None None None "[]"  None
      "[ExpressionStatement None (Literal None (StringValue ''use strict'')),
             ExpressionStatement None (CallExpression None (Identifier None ''f'') [])]" False "[]"]
    unwrapModuleBody_cases [of
      "[ExpressionStatement None (CallExpression None (Identifier None ''f'') [])]"]
  by simp

text \<open>
  The claim as stated fails on the wrapper \<open>(function() { 'use strict'; })()\<close>: the
  directive is the first statement of the function body, and it is not dropped.
\<close>

theorem unwrapModuleBody_lone_directive_counterexample:
  "unwrapModuleBody [ExpressionStatement None (CallExpression None
      (FunctionExpression None None []
         (BlockStatement None
            [ExpressionStatement None (Literal None (StringValue ''use strict''))]) False) [])]
     = Inr [ExpressionStatement None (Literal None (StringValue ''use strict''))] \<and>
   isUseStrict (ExpressionStatement None (Literal None (StringValue ''use strict''))) \<and>
   unwrapModuleBody [ExpressionStatement None (CallExpression None
      (FunctionExpression None None []
         (BlockStatement None
            [ExpressionStatement None (Literal None (StringValue ''use strict''))]) False) [])]
     \<noteq> Inr []"
  by (simp add: unwrapModuleBody_def)

subsection \<open>An example converter\<close>

text \<open>
  An analysis converter with the namespaces \<open>Foo\<close> and \<open>Polymer\<close>, the mutable-export
  configuration \<open>{Foo: ['count', 'tick']}\<close> and the empty module record of \<open>./foo.js\<close>; and
  the converter of \<open>foo.html\<close> on a program body.
\<close>

definition fooAnalysis :: analysisConverter where
  "fooAnalysis =
     \<lparr>ac_namespaces = {''Foo'', ''Polymer''}, ac_excludes = {}, ac_referenceExcludes = {},
      ac_mutableExports = [''Foo'' \<mapsto> [''count'', ''tick'']],
      ac_modules = [''./foo.js'' \<mapsto> 0],
      ac_heap = [0 \<mapsto> \<lparr>module_url = ''./foo.js'', module_source = [], module_exports = {},
                        module_importedReferences = []\<rparr>],
      ac_allocated = 1, ac_namespacedExports = Map.empty, ac_console = []\<rparr>"

definition fooConverter :: "document \<Rightarrow> scriptDocument option \<Rightarrow> node list \<Rightarrow> documentConverter" where
  "fooConverter d script body =
     \<lparr>dc_jsUrl = ''./foo.js'', dc_module = 0, dc_document = d, dc_scriptDocument = script,
      dc_program = Some (None, body), dc_currentStatementIndex = 0,
      dc_mutableExports = [''Foo'' \<mapsto> [''count'', ''tick'']]\<rparr>"

subsection \<open>Members of a namespace object\<close>

definition isBindingValue :: "node \<Rightarrow> bool" where
  "isBindingValue v =
     (case v of
        ObjectExpression l properties \<Rightarrow> True
      | ArrayExpression l elements \<Rightarrow> True
      | Literal l lv \<Rightarrow> True
      | _ \<Rightarrow> False)"




lemma namespaceMember_inherited:
  "isBindingValue v \<Longrightarrow>
   namespaceMember Inherited (Property pl (Identifier kl name) v) =
     Inl (TypeError ''mutableExports.includes is not a function'')"
  by (cases v) (simp_all add: isBindingValue_def bindingExport_def)








subsection \<open>References to this in exported functions\<close>






declare rewriteSingleScopeThisReferences.simps [simp del] visitExportedFunctions.simps [simp del]

















subsection \<open>Documents that are registered already\<close>

text \<open>
  An example of the URL converter: \<open>foo.html\<close> becomes \<open>./foo.js\<close>, whatever the base.
\<close>

definition exampleUrlToJs :: urlConverter where
  "exampleUrlToJs url base = ''./'' @ takeWhile (\<lambda>c. c \<noteq> CHR ''.'') url @ ''.js''"

lemma convertImports_registered:
  "(\<forall>htmlImport \<in> set htmlImports. h (fst htmlImport) (Some baseUrl) \<in> dom (ac_modules ac)) \<Longrightarrow>
   convertImports h cd baseUrl htmlImports ac = (Inr (), ac)"
  by (induction htmlImports) simp_all

text \<open>
  The constructor itself does not look at the registry: it creates a record and
  registers it under the URL, in the place of a record that was there.
\<close>

lemma newDocumentConverter_registers:
  "ac_modules (snd (newDocumentConverter h ac d)) (h (doc_url d) None) = Some (ac_allocated ac) \<and>
   dc_module (fst (newDocumentConverter h ac d)) = ac_allocated ac"
  by (simp add: newDocumentConverter_def Let_def split: list.splits)

text \<open>
  Claim C3. When the registry holds a record for the JS URL of a document,
  \<open>convertDocument\<close> returns that record and leaves the analysis converter (the registry
  and every record) as it was, without running a conversion. In the loop over the
  dependencies, an import whose JS URL (relative to the importing document) is in the
  registry is skipped: the loop goes on with the next import in the same state; when
  all imports are registered, the loop ends in the state it started in, without a call
  of \<open>convertDocument\<close>.
\<close>

theorem registered_document_is_skipped:
  "(ac_modules ac (h (doc_url d) None) = Some r \<longrightarrow>
      convertDocument h convertNew d ac = (Inr (ac_heap ac r), ac)) \<and>
   (h (fst htmlImport) (Some baseUrl) \<in> dom (ac_modules ac) \<longrightarrow>
      convertImports h cd baseUrl (htmlImport # rest) ac = convertImports h cd baseUrl rest ac) \<and>
   ((\<forall>htmlImport \<in> set (getHtmlImports dc ac).
        h (fst htmlImport) (Some (doc_url (dc_document dc))) \<in> dom (ac_modules ac)) \<longrightarrow>
      convertDependencies h cd dc ac = (Inr (), ac))"
  by (simp add: convertDocument_def convertDependencies_def convertImports_registered)

text \<open>
  The document \<open>foo.html\<close> is registered as \<open>./foo.js\<close>: converting it again returns the
  record and does not run the conversion given here, which would throw; and the
  dependencies of \<open>bar.html\<close>, which imports \<open>foo.html\<close>, are converted without a call.
\<close>

theorem registered_document_is_skipped_witness:
  "convertDocument exampleUrlToJs (\<lambda>d ac. (Inl (Error ''converted again''), ac))
     (Document ''foo.html'' [] [] []) fooAnalysis =
     (Inr (Some \<lparr>module_url = ''./foo.js'', module_source = [], module_exports = {},
                 module_importedReferences = []\<rparr>), fooAnalysis) \<and>
   convertDependencies exampleUrlToJs
     (\<lambda>d ac. (Inl (Error ''converted again'') :: error + unit, ac))
     (fooConverter (Document ''bar.html'' [] [(''foo.html'', Document ''foo.html'' [] [] [])] [])
        None [])
     fooAnalysis = (Inr (), fooAnalysis)"
proof -
  have u: "exampleUrlToJs ''foo.html'' b = ''./foo.js''" for b
    by (simp add: exampleUrlToJs_def)
  have m: "ac_modules fooAnalysis ''./foo.js'' = Some 0" by (simp add: fooAnalysis_def)
  have hp: "ac_heap fooAnalysis 0 = Some \<lparr>module_url = ''./foo.js'', module_source = [],
      module_exports = {}, module_importedReferences = []\<rparr>"
    by (simp add: fooAnalysis_def)
  have g: "getHtmlImports
      (fooConverter (Document ''bar.html'' [] [(''foo.html'', Document ''foo.html'' [] [] [])] [])
         None []) fooAnalysis = [(''foo.html'', Document ''foo.html'' [] [] [])]"
    by (simp add: getHtmlImports_def fooConverter_def fooAnalysis_def)
  from registered_document_is_skipped [of fooAnalysis exampleUrlToJs
      "Document ''foo.html'' [] [] []" 0 "\<lambda>d ac. (Inl (Error ''converted again''), ac)"
      "(''foo.html'', Document ''foo.html'' [] [] [])" "''bar.html''"
      "\<lambda>d ac. (Inl (Error ''converted again'') :: error + unit, ac)" "[]"
      "fooConverter (Document ''bar.html'' [] [(''foo.html'', Document ''foo.html'' [] [] [])] [])
         None []"]
  show ?thesis by (simp add: u m hp g domI)
qed

subsection \<open>Documents with more than one script\<close>


text \<open>
  The loop over the dependencies has no handler: when \<open>convertDocument\<close> throws for an
  import that is not registered, \<open>convertDependencies\<close> of the importing document throws
  the same error. Whether the failure of one document reaches a document that imports it
  is therefore decided by \<open>convertDocument\<close>.
\<close>

lemma convertImports_throws:
  "h (fst htmlImport) (Some baseUrl) \<notin> dom (ac_modules ac) \<Longrightarrow>
   cd (snd htmlImport) ac = (Inl e, ac') \<Longrightarrow>
   convertImports h cd baseUrl (htmlImport # rest) ac = (Inl e, ac')"
  by simp





subsection \<open>The export of Polymer._polymerFn\<close>




subsection \<open>A namespace declaration that cannot be located\<close>







end
